theory Spec2Isabelle
  imports Main
begin

section \<open>The default plugin (src/utils/defaultPlugin.ts)\<close>

text \<open>
  The file has two independent halves: the format mechanism tables behind the hooks
  \<open>resolveAssetUrl\<close> and \<open>resolveImportMeta\<close>, which build source text for the emitted
  bundle, and the resolver behind \<open>resolveId\<close>, which probes the file system.
  JavaScript strings are modelled as \<open>string\<close>; template literals are concatenations.
\<close>

subsection \<open>Values, errors and outcomes of a hook call\<close>

datatype error = MISSING_PROCESS | TypeError

text \<open>
  What a hook hands back is a string on every path the tables provide. The tables are
  indexed by an arbitrary string, though, and a string that names a member inherited from
  \<open>Object.prototype\<close> reaches that member; so the values also comprise \<open>undefined\<close>, the
  booleans, and objects. Of an object the hooks use two things only: it is truthy, and it
  converts to a text, which \<open>Obj\<close> carries.
\<close>

datatype jsvalue = Str string | Undef | Bool bool | Obj string

fun truthyValue :: "jsvalue \<Rightarrow> bool" where
  "truthyValue (Str s) = (s \<noteq> [])"
| "truthyValue Undef = False"
| "truthyValue (Bool b) = b"
| "truthyValue (Obj t) = True"

fun toString :: "jsvalue \<Rightarrow> string" where
  "toString (Str s) = s"
| "toString Undef = ''undefined''"
| "toString (Bool b) = (if b then ''true'' else ''false'')"
| "toString (Obj t) = t"

datatype 'a outcome = Returns 'a | Throws error

text \<open>
  Both tables are object literals typed \<open>Record<string, ...>\<close> and indexed by the format
  string. \<open>table[format]\<close> answers with the entry written in the source; failing that, with
  the member of that name that every object literal inherits from \<open>Object.prototype\<close>;
  failing that, with \<open>undefined\<close>. A property is a function to call, a value that cannot
  be called, or absent.
\<close>

datatype property = Method "string \<Rightarrow> jsvalue outcome" | NotCallable | Absent

text \<open>
  The twelve members of \<open>Object.prototype\<close>, as ECMAScript defines them (Annex B for the
  names with underscores), called as a method of the table with one string argument.
  \<open>own\<close> tells the table's own keys, all of them enumerable data properties.
  \<^item> \<open>constructor\<close> is \<open>Object\<close>: it wraps the string in a \<open>String\<close> object;
  \<^item> \<open>__defineGetter__\<close> and \<open>__defineSetter__\<close> raise a \<open>TypeError\<close>, their second
    argument not being a function;
  \<^item> \<open>hasOwnProperty\<close> and \<open>propertyIsEnumerable\<close> tell whether the argument is an own key;
  \<^item> \<open>__lookupGetter__\<close> and \<open>__lookupSetter__\<close> find an accessor for \<open>__proto__\<close> alone
    (a native function, with the text V8 gives it) and yield \<open>undefined\<close> otherwise;
  \<^item> \<open>isPrototypeOf\<close> is \<open>false\<close> of a string;
  \<^item> \<open>toString\<close> and \<open>toLocaleString\<close> yield \<open>[object Object]\<close>;
  \<^item> \<open>valueOf\<close> yields the table itself;
  \<^item> \<open>__proto__\<close> is \<open>Object.prototype\<close> itself, an object that cannot be called.
\<close>

definition objectPrototypeNames :: "string list" where
  "objectPrototypeNames =
     [''constructor'', ''__defineGetter__'', ''__defineSetter__'', ''hasOwnProperty'',
      ''__lookupGetter__'', ''__lookupSetter__'', ''isPrototypeOf'',
      ''propertyIsEnumerable'', ''toString'', ''valueOf'', ''__proto__'',
      ''toLocaleString'']"

definition objectPrototype :: "(string \<Rightarrow> bool) \<Rightarrow> string \<Rightarrow> property" where
  "objectPrototype own key =
     (if key = ''constructor'' then Method (\<lambda>s. Returns (Obj s))
      else if key = ''__defineGetter__'' \<or> key = ''__defineSetter__''
        then Method (\<lambda>s. Throws TypeError)
      else if key = ''hasOwnProperty'' \<or> key = ''propertyIsEnumerable''
        then Method (\<lambda>s. Returns (Bool (own s)))
      else if key = ''__lookupGetter__''
        then Method (\<lambda>s. Returns (if s = ''__proto__''
                                    then Obj ''function get __proto__() { [native code] }''
                                    else Undef))
      else if key = ''__lookupSetter__''
        then Method (\<lambda>s. Returns (if s = ''__proto__''
                                    then Obj ''function set __proto__() { [native code] }''
                                    else Undef))
      else if key = ''isPrototypeOf'' then Method (\<lambda>s. Returns (Bool False))
      else if key = ''toString'' \<or> key = ''toLocaleString''
        then Method (\<lambda>s. Returns (Str ''[object Object]''))
      else if key = ''valueOf'' then Method (\<lambda>s. Returns (Obj ''[object Object]''))
      else if key = ''__proto__'' then NotCallable
      else Absent)"

definition property :: "(string \<rightharpoonup> (string \<Rightarrow> string)) \<Rightarrow> string \<Rightarrow> property" where
  "property table key =
     (case table key of
        Some f \<Rightarrow> Method (\<lambda>s. Returns (Str (f s)))
      | None \<Rightarrow> objectPrototype (\<lambda>s. table s \<noteq> None) key)"

subsection \<open>The mechanism tables\<close>

text \<open>
  \<open>getResolveUrl\<close> has a default second parameter: \<open>None\<close> is the call with one argument.
\<close>

definition getResolveUrl :: "string \<Rightarrow> string option \<Rightarrow> string" where
  "getResolveUrl path URL =
     ''new '' @ (case URL of None \<Rightarrow> ''URL'' | Some u \<Rightarrow> u) @ ''('' @ path @ '').href''"

definition getUrlFromDocument :: "string \<Rightarrow> string" where
  "getUrlFromDocument chunkId =
     ''(document.currentScript && document.currentScript.src || new URL('' @ [CHR 0x27] @
     chunkId @ ''', document.baseURI).href)''"

definition importMetaUrlMechanisms :: "string \<rightharpoonup> (string \<Rightarrow> string)" where
  "importMetaUrlMechanisms =
     [''amd'' \<mapsto> (\<lambda>chunkId. getResolveUrl ''module.uri, document.baseURI'' None),
      ''cjs'' \<mapsto> (\<lambda>chunkId.
         ''(typeof document === 'undefined' ? '' @
         getResolveUrl ('''file:' + __filename'') (Some ''(require('u' + 'rl').URL)'') @
         '' : '' @ getUrlFromDocument chunkId @ '')''),
      ''iife'' \<mapsto> (\<lambda>chunkId. getUrlFromDocument chunkId),
      ''system'' \<mapsto> (\<lambda>chunkId. ''module.meta.url''),
      ''umd'' \<mapsto> (\<lambda>chunkId.
         ''(typeof document === 'undefined' ? '' @
         getResolveUrl ('''file:' + __filename'') (Some ''(require('u' + 'rl').URL)'') @
         '' : '' @ getUrlFromDocument chunkId @ '')'')]"

definition getRelativeUrlFromDocument :: "string \<Rightarrow> string" where
  "getRelativeUrlFromDocument relativePath =
     getResolveUrl
       (''(document.currentScript && document.currentScript.src || document.baseURI) + '/../'' @
        relativePath @ [CHR 0x27])
       None"

definition relativeUrlMechanisms :: "string \<rightharpoonup> (string \<Rightarrow> string)" where
  "relativeUrlMechanisms =
     [''amd'' \<mapsto> (\<lambda>relativePath.
         getResolveUrl (''module.uri + '/../'' @ relativePath @ ''', document.baseURI'') None),
      ''cjs'' \<mapsto> (\<lambda>relativePath.
         ''(typeof document === 'undefined' ? '' @
         getResolveUrl ('''file:' + __dirname + '/'' @ relativePath @ [CHR 0x27])
           (Some ''(require('u' + 'rl').URL)'') @
         '' : '' @ getRelativeUrlFromDocument relativePath @ '')''),
      ''es'' \<mapsto> (\<lambda>relativePath.
         getResolveUrl ([CHR 0x27] @ relativePath @ ''', import.meta.url'') None),
      ''iife'' \<mapsto> (\<lambda>relativePath. getRelativeUrlFromDocument relativePath),
      ''system'' \<mapsto> (\<lambda>relativePath.
         getResolveUrl ([CHR 0x27] @ relativePath @ ''', module.meta.url'') None),
      ''umd'' \<mapsto> (\<lambda>relativePath.
         ''(typeof document === 'undefined' ? '' @
         getResolveUrl ('''file:' + __dirname + '/'' @ relativePath @ [CHR 0x27])
           (Some ''(require('u' + 'rl').URL)'') @
         '' : '' @ getRelativeUrlFromDocument relativePath @ '')'')]"

subsection \<open>The two code-generation hooks\<close>

text \<open>
  \<open>resolveAssetUrl\<close> calls \<open>relativeUrlMechanisms[format]\<close> without looking at it first:
  calling \<open>undefined\<close>, or an object that is no function, is a \<open>TypeError\<close>.
\<close>

definition resolveAssetUrl :: "string \<Rightarrow> string \<Rightarrow> jsvalue outcome" where
  "resolveAssetUrl relativeAssetPath format =
     (case property relativeUrlMechanisms format of
        Method f \<Rightarrow> f relativeAssetPath
      | NotCallable \<Rightarrow> Throws TypeError
      | Absent \<Rightarrow> Throws TypeError)"

text \<open>
  \<open>resolveImportMeta\<close> guards the call with \<open>&&\<close>, which lets \<open>undefined\<close> through and
  calls anything truthy, and then tests the mechanism for truthiness; falling off the end
  of the function returns \<open>undefined\<close>. The property is \<open>null\<close> (\<open>None\<close>) or a name. The
  template literal converts the mechanism to a string; for \<open>url\<close> the mechanism is
  returned as it is.
\<close>

definition resolveImportMeta :: "string option \<Rightarrow> string \<Rightarrow> string \<Rightarrow> jsvalue outcome" where
  "resolveImportMeta prop chunkId format =
     (case (case property importMetaUrlMechanisms format of
              Absent \<Rightarrow> Returns Undef
            | NotCallable \<Rightarrow> Throws TypeError
            | Method f \<Rightarrow> f chunkId) of
        Throws e \<Rightarrow> Throws e
      | Returns mechanism \<Rightarrow>
          if truthyValue mechanism then
            Returns
              (case prop of
                 None \<Rightarrow> Str (''({ url: '' @ toString mechanism @ '' })'')
               | Some p \<Rightarrow> if p = ''url'' then mechanism else Str ''undefined'')
          else Returns Undef)"

subsection \<open>The host: file system and path primitives\<close>

text \<open>
  The resolver reads the world through \<open>./fs\<close> (\<open>lstatSync\<close>, \<open>realpathSync\<close>,
  \<open>readdirSync\<close>), through \<open>./path\<close> (\<open>basename\<close>, \<open>dirname\<close>, \<open>isAbsolute\<close>,
  \<open>resolve\<close>) and through the global \<open>process\<close>. None of them is defined in this file, so
  they are the fields of a host that every resolver function takes as a parameter. A file
  system call returns its value or raises; the path primitives are pure string functions,
  and \<open>resolve []\<close> is the call \<open>resolve()\<close> that yields the working directory.
  Of an \<open>fs.Stats\<close> object the resolver reads only two predicates.
\<close>

datatype errno = ENOENT | EACCES | ELOOP | ENOTDIR

record stats =
  isSymbolicLink :: bool
  isFile :: bool

record host =
  process_defined :: bool
  lstatSync :: "string \<Rightarrow> errno + stats"
  realpathSync :: "string \<Rightarrow> errno + string"
  readdirSync :: "string \<Rightarrow> errno + string list"
  basename :: "string \<Rightarrow> string"
  dirname :: "string \<Rightarrow> string"
  isAbsolute :: "string \<Rightarrow> bool"
  resolve :: "string list \<Rightarrow> string"

text \<open>Every file system call a resolver function makes is logged, in order.\<close>

datatype probe = Lstat string | Realpath string | Readdir string

subsection \<open>File verification\<close>

text \<open>
  \<open>findFile\<close> returns \<open>string | void\<close>: \<open>Some file\<close> or \<open>None\<close> for \<open>undefined\<close>. Its whole
  body sits in \<open>try { ... } catch (err) { }\<close>, so a raising file system call ends the call
  with \<open>undefined\<close>. It calls itself on the real path of a symbolic link, and no test in
  the code bounds that recursion: the function is partial, and the outer \<open>None\<close> stands
  for a recursion that never reaches a return. An engine's stack is finite: there such a
  recursion is cut short by a \<open>RangeError\<close>, raised inside the \<open>try\<close> and caught like any
  other error, and the call returns \<open>undefined\<close>. The model has no stack; what is proved
  below of calls that return (\<open>Some\<close>) does not depend on it.
\<close>

partial_function (option) findFile :: "host \<Rightarrow> string \<Rightarrow> bool \<Rightarrow> (probe list \<times> string option) option" where
  "findFile h file preserveSymlinks =
     (case lstatSync h file of
        Inl err \<Rightarrow> Some ([Lstat file], None)
      | Inr stats \<Rightarrow>
          if \<not> preserveSymlinks \<and> isSymbolicLink stats then
            (case realpathSync h file of
               Inl err \<Rightarrow> Some ([Lstat file, Realpath file], None)
             | Inr target \<Rightarrow>
                 Option.bind (findFile h target preserveSymlinks)
                   (\<lambda>r. Some (Lstat file # Realpath file # fst r, snd r)))
          else if (preserveSymlinks \<and> isSymbolicLink stats) \<or> isFile stats then
            (case readdirSync h (dirname h file) of
               Inl err \<Rightarrow> Some ([Lstat file, Readdir (dirname h file)], None)
             | Inr files \<Rightarrow>
                 if basename h file \<in> set files
                 then Some ([Lstat file, Readdir (dirname h file)], Some file)
                 else Some ([Lstat file, Readdir (dirname h file)], None))
          else Some ([Lstat file], None))"

subsection \<open>Extension inference\<close>

text \<open>\<open>if (found)\<close>: \<open>undefined\<close> and the empty string are falsy, every other string is truthy.\<close>

definition truthy :: "string option \<Rightarrow> bool" where
  "truthy found = (case found of None \<Rightarrow> False | Some s \<Rightarrow> s \<noteq> [])"

definition addJsExtensionIfNecessary :: "host \<Rightarrow> string \<Rightarrow> bool \<Rightarrow> (probe list \<times> string option) option" where
  "addJsExtensionIfNecessary h file preserveSymlinks =
     (case findFile h file preserveSymlinks of
        None \<Rightarrow> None
      | Some (ps1, found1) \<Rightarrow>
          if truthy found1 then Some (ps1, found1)
          else
            (case findFile h (file @ ''.mjs'') preserveSymlinks of
               None \<Rightarrow> None
             | Some (ps2, found2) \<Rightarrow>
                 if truthy found2 then Some (ps1 @ ps2, found2)
                 else
                   (case findFile h (file @ ''.js'') preserveSymlinks of
                      None \<Rightarrow> None
                    | Some (ps3, found3) \<Rightarrow> Some (ps1 @ ps2 @ ps3, found3))))"

subsection \<open>The resolver\<close>

text \<open>
  \<open>resolveId\<close> returns a path, \<open>null\<close> (the early return for external modules) or the
  \<open>undefined\<close> that \<open>findFile\<close> hands up. The importer is \<open>undefined\<close> for an entry point.
  \<open>createResolveId\<close> reads one option, \<open>options.preserveSymlinks\<close>, passed here as the flag.
\<close>

datatype resolution = Path string | Null | Undefined

text \<open>
  Modelled from the spec: \<open>error\<close> is imported from \<open>./error\<close> and not defined in this file.
  The spec has the environment error reported immediately and fatal, resolution not
  proceeding at all: \<open>error\<close> raises the error it is given and does not return.
\<close>

definition error :: "error \<Rightarrow> error + resolution" where
  "error e = Inl e"

definition createResolveId :: "host \<Rightarrow> bool \<Rightarrow> string \<Rightarrow> string option \<Rightarrow> (probe list \<times> (error + resolution)) option" where
  "createResolveId h preserveSymlinks importee importer =
     (if \<not> process_defined h then Some ([], error MISSING_PROCESS)
      else if importer \<noteq> None \<and> \<not> isAbsolute h importee \<and>
              (case importee of [] \<Rightarrow> True | c # cs \<Rightarrow> c \<noteq> CHR ''.'')
      then Some ([], Inr Null)
      else
        (case addJsExtensionIfNecessary h
                (resolve h [if truthy importer then dirname h (the importer) else resolve h [],
                            importee])
                preserveSymlinks of
           None \<Rightarrow> None
         | Some (ps, found) \<Rightarrow>
             Some (ps, Inr (case found of None \<Rightarrow> Undefined | Some p \<Rightarrow> Path p))))"

text \<open>
  Two names for the statements below: the path the resolver composes before extension
  inference, and the probes that read a link's real path.
\<close>

definition composedPath :: "host \<Rightarrow> string \<Rightarrow> string option \<Rightarrow> string" where
  "composedPath h importee importer =
     resolve h [if truthy importer then dirname h (the importer) else resolve h [], importee]"

fun isRealpath :: "probe \<Rightarrow> bool" where
  "isRealpath (Realpath p) = True"
| "isRealpath (Lstat p) = False"
| "isRealpath (Readdir p) = False"

subsection \<open>A sample host\<close>

text \<open>
  A small POSIX-like host for the closed examples. \<open>/proj\<close> holds \<open>main.js\<close>, \<open>foo.js\<close>,
  \<open>bar.mjs\<close>, \<open>both\<close> and \<open>both.js\<close>, a symbolic link \<open>link.js\<close> to \<open>/real/target.js\<close>,
  and a link \<open>loop.js\<close> whose real path cannot be read; \<open>/locked\<close> holds \<open>secret.js\<close>
  and may not be listed. The file system matches names without regard to case, as the
  default file systems of macOS and Windows do, while directory listings spell each name
  as it was created.
\<close>

definition lower :: "string \<Rightarrow> string" where
  "lower s =
     map (\<lambda>c. case map_of (zip ''ABCDEFGHIJKLMNOPQRSTUVWXYZ'' ''abcdefghijklmnopqrstuvwxyz'') c of
                 Some l \<Rightarrow> l
               | None \<Rightarrow> c) s"

definition sample_lstat :: "string \<Rightarrow> errno + stats" where
  "sample_lstat p =
     (if lower p \<in> set [''/proj/main.js'', ''/proj/foo.js'', ''/proj/bar.mjs'', ''/proj/both'',
                         ''/proj/both.js'', ''/real/target.js'', ''/locked/secret.js'']
      then Inr \<lparr>isSymbolicLink = False, isFile = True\<rparr>
      else if lower p \<in> set [''/proj/link.js'', ''/proj/loop.js'']
      then Inr \<lparr>isSymbolicLink = True, isFile = False\<rparr>
      else if lower p \<in> set [''/proj'', ''/real'', ''/locked'']
      then Inr \<lparr>isSymbolicLink = False, isFile = False\<rparr>
      else Inl ENOENT)"

definition sample_realpath :: "string \<Rightarrow> errno + string" where
  "sample_realpath p =
     (if lower p = ''/proj/link.js'' then Inr ''/real/target.js''
      else if lower p = ''/proj/loop.js'' then Inl ELOOP
      else if lower p \<in> set [''/proj/main.js'', ''/proj/foo.js'', ''/proj/bar.mjs'', ''/proj/both'',
                              ''/proj/both.js'', ''/real/target.js'', ''/locked/secret.js'',
                              ''/proj'', ''/real'', ''/locked'']
      then Inr (lower p)
      else Inl ENOENT)"

definition sample_readdir :: "string \<Rightarrow> errno + string list" where
  "sample_readdir d =
     (if lower d = ''/proj''
      then Inr [''bar.mjs'', ''both'', ''both.js'', ''foo.js'', ''link.js'', ''loop.js'', ''main.js'']
      else if lower d = ''/real'' then Inr [''target.js'']
      else if lower d = ''/locked'' then Inl EACCES
      else Inl ENOENT)"

definition sample_basename :: "string \<Rightarrow> string" where
  "sample_basename p = rev (takeWhile (\<lambda>c. c \<noteq> CHR ''/'') (rev p))"

definition sample_dirname :: "string \<Rightarrow> string" where
  "sample_dirname p = rev (drop 1 (dropWhile (\<lambda>c. c \<noteq> CHR ''/'') (rev p)))"

definition sample_isAbsolute :: "string \<Rightarrow> bool" where
  "sample_isAbsolute p = (case p of [] \<Rightarrow> False | c # cs \<Rightarrow> c = CHR ''/'')"

fun sample_resolve :: "string list \<Rightarrow> string" where
  "sample_resolve [] = ''/proj''"
| "sample_resolve [p] = (if sample_isAbsolute p then p else ''/proj/'' @ p)"
| "sample_resolve (d # p # ps) =
     (if sample_isAbsolute p then p
      else if take 2 p = ''./'' then d @ ''/'' @ drop 2 p
      else d @ ''/'' @ p)"

definition sample_host :: host where
  "sample_host =
     \<lparr>process_defined = True, lstatSync = sample_lstat, realpathSync = sample_realpath,
      readdirSync = sample_readdir, basename = sample_basename, dirname = sample_dirname,
      isAbsolute = sample_isAbsolute, resolve = sample_resolve\<rparr>"

section \<open>The mechanism tables: results\<close>

lemma relativeUrlMechanisms_entries:
  "relativeUrlMechanisms format = None \<longleftrightarrow>
     format \<notin> set [''amd'', ''cjs'', ''es'', ''iife'', ''system'', ''umd'']"
  by (simp add: relativeUrlMechanisms_def)

lemma importMetaUrlMechanisms_entries:
  "importMetaUrlMechanisms format = None \<longleftrightarrow>
     format \<notin> set [''amd'', ''cjs'', ''iife'', ''system'', ''umd'']"
  by (simp add: importMetaUrlMechanisms_def)

lemma objectPrototype_Absent:
  "objectPrototype own key = Absent \<longleftrightarrow> key \<notin> set objectPrototypeNames"
  by (simp add: objectPrototype_def objectPrototypeNames_def)

lemma property_Absent:
  "property table key = Absent \<longleftrightarrow> table key = None \<and> key \<notin> set objectPrototypeNames"
  by (cases "table key") (simp_all add: property_def objectPrototype_Absent)

lemma property_entry:
  "table key = Some f \<Longrightarrow> property table key = Method (\<lambda>s. Returns (Str (f s)))"
  by (simp add: property_def)

lemma objectPrototype_call:
  "objectPrototype own key = NotCallable \<longleftrightarrow> key = ''__proto__''"
  "objectPrototype own key = Method g \<Longrightarrow>
     (\<exists>e. g s = Throws e) \<longleftrightarrow> key \<in> set [''__defineGetter__'', ''__defineSetter__'']"
  by (auto simp: objectPrototype_def split: if_splits)

lemma resolveImportMeta_throws:
  "(\<exists>e. resolveImportMeta prop chunkId format = Throws e) \<longleftrightarrow>
     format \<in> set [''__proto__'', ''__defineGetter__'', ''__defineSetter__'']"
proof (cases "importMetaUrlMechanisms format")
  case (Some f)
  then have "format \<notin> set [''__proto__'', ''__defineGetter__'', ''__defineSetter__'']"
    using importMetaUrlMechanisms_entries [of format] by auto
  with Some show ?thesis
    by (simp add: resolveImportMeta_def property_entry)
next
  case None
  then have p: "property importMetaUrlMechanisms format =
      objectPrototype (\<lambda>s. importMetaUrlMechanisms s \<noteq> None) format"
    by (simp add: property_def)
  show ?thesis
  proof (cases "objectPrototype (\<lambda>s. importMetaUrlMechanisms s \<noteq> None) format")
    case (Method g)
    with objectPrototype_call [of "\<lambda>s. importMetaUrlMechanisms s \<noteq> None" format]
    have "(\<exists>e. g chunkId = Throws e) \<longleftrightarrow>
        format \<in> set [''__defineGetter__'', ''__defineSetter__'']"
      and "format \<noteq> ''__proto__''"
      by auto
    with Method p show ?thesis
      by (cases "g chunkId") (auto simp: resolveImportMeta_def)
  next
    case NotCallable
    with p objectPrototype_call(1) [of "\<lambda>s. importMetaUrlMechanisms s \<noteq> None" format]
    show ?thesis by (simp add: resolveImportMeta_def)
  next
    case Absent
    then have "format \<notin> set objectPrototypeNames"
      by (simp add: objectPrototype_Absent)
    then have "format \<notin> set [''__proto__'', ''__defineGetter__'', ''__defineSetter__'']"
      by (auto simp: objectPrototypeNames_def)
    with Absent p show ?thesis by (simp add: resolveImportMeta_def)
  qed
qed

text \<open>
  C1, as stated: neither hook can fail; a format without a table entry yields "no entry"
  instead of an error. For \<open>resolveAssetUrl\<close> this is false: \<open>foo\<close> names no property of the
  asset table, and the hook calls the missing entry.
\<close>

theorem resolveAssetUrl_unknown_format_counterexample:
  "property relativeUrlMechanisms ''foo'' = Absent \<and>
   resolveAssetUrl ''img.png'' ''foo'' = Throws TypeError"
  by (simp add: resolveAssetUrl_def property_def relativeUrlMechanisms_def objectPrototype_def)

text \<open>
  C1, amended. A format names no property of a table when it is neither one of the table's
  entries nor one of the twelve names inherited from \<open>Object.prototype\<close>. For every such
  format \<open>resolveImportMeta\<close> returns \<open>undefined\<close>, and \<open>resolveAssetUrl\<close> raises a
  \<open>TypeError\<close>. \<open>resolveAssetUrl\<close> returns an expression for each of the six formats of the
  fixed set, all of which are entries of the asset table. Over all format strings,
  \<open>resolveImportMeta\<close> raises for exactly three, the inherited names \<open>__proto__\<close>,
  \<open>__defineGetter__\<close> and \<open>__defineSetter__\<close>.
\<close>

theorem format_lookup_miss:
  "(property importMetaUrlMechanisms format = Absent \<longleftrightarrow>
      format \<notin> set [''amd'', ''cjs'', ''iife'', ''system'', ''umd''] \<and>
      format \<notin> set objectPrototypeNames) \<and>
   (property importMetaUrlMechanisms format = Absent \<longrightarrow>
      resolveImportMeta prop chunkId format = Returns Undef) \<and>
   ((\<exists>e. resolveImportMeta prop chunkId format = Throws e) \<longleftrightarrow>
      format \<in> set [''__proto__'', ''__defineGetter__'', ''__defineSetter__'']) \<and>
   (property relativeUrlMechanisms format = Absent \<longleftrightarrow>
      format \<notin> set [''amd'', ''cjs'', ''es'', ''iife'', ''system'', ''umd''] \<and>
      format \<notin> set objectPrototypeNames) \<and>
   (property relativeUrlMechanisms format = Absent \<longrightarrow>
      resolveAssetUrl relativeAssetPath format = Throws TypeError) \<and>
   (format \<in> set [''amd'', ''cjs'', ''es'', ''iife'', ''system'', ''umd''] \<longrightarrow>
      (\<exists>code. resolveAssetUrl relativeAssetPath format = Returns (Str code)))"
proof (intro conjI impI)
  show "property importMetaUrlMechanisms format = Absent \<longleftrightarrow>
      format \<notin> set [''amd'', ''cjs'', ''iife'', ''system'', ''umd''] \<and>
      format \<notin> set objectPrototypeNames"
    using importMetaUrlMechanisms_entries [of format] by (simp only: property_Absent)
next
  assume "property importMetaUrlMechanisms format = Absent"
  then show "resolveImportMeta prop chunkId format = Returns Undef"
    by (simp add: resolveImportMeta_def)
next
  show "(\<exists>e. resolveImportMeta prop chunkId format = Throws e) \<longleftrightarrow>
      format \<in> set [''__proto__'', ''__defineGetter__'', ''__defineSetter__'']"
    by (rule resolveImportMeta_throws)
next
  show "property relativeUrlMechanisms format = Absent \<longleftrightarrow>
      format \<notin> set [''amd'', ''cjs'', ''es'', ''iife'', ''system'', ''umd''] \<and>
      format \<notin> set objectPrototypeNames"
    using relativeUrlMechanisms_entries [of format] by (simp only: property_Absent)
next
  assume "property relativeUrlMechanisms format = Absent"
  then show "resolveAssetUrl relativeAssetPath format = Throws TypeError"
    by (simp add: resolveAssetUrl_def)
next
  assume "format \<in> set [''amd'', ''cjs'', ''es'', ''iife'', ''system'', ''umd'']"
  then have "relativeUrlMechanisms format \<noteq> None"
    using relativeUrlMechanisms_entries [of format] by blast
  then obtain f where "relativeUrlMechanisms format = Some f" by blast
  then show "\<exists>code. resolveAssetUrl relativeAssetPath format = Returns (Str code)"
    by (simp add: resolveAssetUrl_def property_entry)
qed

theorem format_lookup_miss_witness:
  "property importMetaUrlMechanisms ''es'' = Absent \<and>
   resolveImportMeta (Some ''url'') ''bundle.js'' ''es'' = Returns Undef \<and>
   resolveImportMeta None ''bundle.js'' ''__proto__'' = Throws TypeError \<and>
   property relativeUrlMechanisms ''esm'' = Absent \<and>
   resolveAssetUrl ''img.png'' ''esm'' = Throws TypeError \<and>
   ''es'' \<in> set [''amd'', ''cjs'', ''es'', ''iife'', ''system'', ''umd''] \<and>
   (\<exists>code. resolveAssetUrl ''img.png'' ''es'' = Returns (Str code))"
proof -
  have a: "property importMetaUrlMechanisms ''es'' = Absent"
    by (simp add: property_def importMetaUrlMechanisms_def objectPrototype_def)
  have b: "resolveImportMeta None ''bundle.js'' ''__proto__'' = Throws TypeError"
    by (simp add: resolveImportMeta_def property_def importMetaUrlMechanisms_def
          objectPrototype_def)
  have c: "''es'' \<in> set [''amd'', ''cjs'', ''es'', ''iife'', ''system'', ''umd'']"
    by simp
  have d: "property relativeUrlMechanisms ''esm'' = Absent"
    by (simp add: property_def relativeUrlMechanisms_def objectPrototype_def)
  from a b c d
    format_lookup_miss [of "''es''" "Some ''url''" "''bundle.js''" "''img.png''"]
    format_lookup_miss [of "''esm''" None "''bundle.js''" "''img.png''"]
  show ?thesis by blast
qed

text \<open>
  The inherited names, where the lookup misses the table and still finds something: the
  runs that the amended claim sets apart.
\<close>

lemma inherited_members:
  "resolveImportMeta prop chunkId ''__proto__'' = Throws TypeError"
  "resolveImportMeta None chunkId ''toString'' = Returns (Str ''({ url: [object Object] })'')"
  "resolveImportMeta (Some ''url'') chunkId ''toString'' = Returns (Str ''[object Object]'')"
  "resolveAssetUrl relativeAssetPath ''__proto__'' = Throws TypeError"
  "resolveAssetUrl relativeAssetPath ''toString'' = Returns (Str ''[object Object]'')"
  by (simp_all add: resolveImportMeta_def resolveAssetUrl_def property_def
        importMetaUrlMechanisms_def relativeUrlMechanisms_def objectPrototype_def)

text \<open>
  C2: for every chunk identifier, \<open>resolveImportMeta\<close> with property \<open>null\<close> and format
  \<open>iife\<close> returns the object literal \<open>({ url: <mechanism> })\<close> around the \<open>iife\<close> entry of
  the import-meta table; with any property other than \<open>null\<close> and \<open>url\<close> it returns the
  text \<open>undefined\<close>; with property \<open>url\<close> and format \<open>es\<close> it returns nothing, the table
  having no \<open>es\<close> entry.
\<close>

theorem resolveImportMeta_iife_and_es:
  "resolveImportMeta None chunkId ''iife'' =
     Returns (Str (''({ url: (document.currentScript && document.currentScript.src || new URL('' @
                   [CHR 0x27] @ chunkId @ ''', document.baseURI).href) })'')) \<and>
   (\<exists>f. importMetaUrlMechanisms ''iife'' = Some f \<and>
        resolveImportMeta None chunkId ''iife'' =
          Returns (Str (''({ url: '' @ f chunkId @ '' })''))) \<and>
   (prop \<noteq> None \<and> prop \<noteq> Some ''url'' \<longrightarrow>
      resolveImportMeta prop chunkId ''iife'' = Returns (Str ''undefined'')) \<and>
   importMetaUrlMechanisms ''es'' = None \<and>
   resolveImportMeta (Some ''url'') chunkId ''es'' = Returns Undef"
  by (auto simp: resolveImportMeta_def property_def importMetaUrlMechanisms_def
        getUrlFromDocument_def objectPrototype_def split: option.splits)

theorem resolveImportMeta_iife_and_es_witness:
  "Some ''other'' \<noteq> None \<and> Some ''other'' \<noteq> Some ''url'' \<and>
   resolveImportMeta (Some ''other'') ''bundle.js'' ''iife'' = Returns (Str ''undefined'')"
  using resolveImportMeta_iife_and_es [of "''bundle.js''" "Some ''other''"] by simp

text \<open>
  C8: for every relative path, the asset-URL expression of \<open>es\<close> anchors on
  \<open>import.meta.url\<close>; those of \<open>cjs\<close> and \<open>umd\<close> are one conditional expression on
  \<open>typeof document === 'undefined'\<close>, a \<open>file:\<close> URL built from \<open>__dirname\<close> and the path on
  the branch without a document and a URL relative to the document on the other; \<open>amd\<close>
  anchors on \<open>module.uri\<close>, \<open>system\<close> on \<open>module.meta.url\<close>, and \<open>iife\<close> is the
  document-relative construction alone.
\<close>

theorem relativeUrlMechanisms_expressions:
  "resolveAssetUrl relativePath ''es'' =
     Returns (Str (''new URL('' @ [CHR 0x27] @ relativePath @ ''', import.meta.url).href'')) \<and>
   resolveAssetUrl relativePath ''cjs'' =
     Returns (Str (''(typeof document === 'undefined' ? new (require('u' + 'rl').URL)('file:' + __dirname + '/'' @
              relativePath @
              ''').href : new URL((document.currentScript && document.currentScript.src || document.baseURI) + '/../'' @
              relativePath @ ''').href)'')) \<and>
   resolveAssetUrl relativePath ''umd'' = resolveAssetUrl relativePath ''cjs'' \<and>
   resolveAssetUrl relativePath ''amd'' =
     Returns (Str (''new URL(module.uri + '/../'' @ relativePath @ ''', document.baseURI).href'')) \<and>
   resolveAssetUrl relativePath ''system'' =
     Returns (Str (''new URL('' @ [CHR 0x27] @ relativePath @ ''', module.meta.url).href'')) \<and>
   resolveAssetUrl relativePath ''iife'' =
     Returns (Str (''new URL((document.currentScript && document.currentScript.src || document.baseURI) + '/../'' @
              relativePath @ ''').href''))"
  by (simp add: resolveAssetUrl_def property_def relativeUrlMechanisms_def getResolveUrl_def
       getRelativeUrlFromDocument_def)

section \<open>The resolver: results\<close>

subsection \<open>The branches of file verification\<close>

lemma findFile_lstat_error:
  "lstatSync h file = Inl e \<Longrightarrow> findFile h file p = Some ([Lstat file], None)"
  by (subst findFile.simps) simp

lemma findFile_realpath_error:
  "lstatSync h file = Inr st \<Longrightarrow> isSymbolicLink st \<Longrightarrow> realpathSync h file = Inl e \<Longrightarrow>
   findFile h file False = Some ([Lstat file, Realpath file], None)"
  by (subst findFile.simps) simp

lemma findFile_follow:
  "lstatSync h file = Inr st \<Longrightarrow> isSymbolicLink st \<Longrightarrow> realpathSync h file = Inr target \<Longrightarrow>
   findFile h file False =
     Option.bind (findFile h target False) (\<lambda>r. Some (Lstat file # Realpath file # fst r, snd r))"
  by (subst findFile.simps) simp

lemma findFile_follow_result:
  "lstatSync h c = Inr st \<Longrightarrow> isSymbolicLink st \<Longrightarrow> realpathSync h c = Inr target \<Longrightarrow>
   map_option snd (findFile h c False) = map_option snd (findFile h target False)"
  by (subst findFile_follow [of h c st target]) (auto split: bind_splits)

lemma findFile_in_place:
  "lstatSync h file = Inr st \<Longrightarrow> p \<or> \<not> isSymbolicLink st \<Longrightarrow>
   findFile h file p =
     (if (p \<and> isSymbolicLink st) \<or> isFile st then
        (case readdirSync h (dirname h file) of
           Inl err \<Rightarrow> Some ([Lstat file, Readdir (dirname h file)], None)
         | Inr files \<Rightarrow>
             Some ([Lstat file, Readdir (dirname h file)],
                   if basename h file \<in> set files then Some file else None))
      else Some ([Lstat file], None))"
  by (subst findFile.simps) (auto split: sum.splits)

lemma findFile_in_place_probes:
  assumes "lstatSync h file = Inr st" "p \<or> \<not> isSymbolicLink st"
  shows "\<exists>ps r. findFile h file p = Some (ps, r) \<and> filter isRealpath ps = []"
  using findFile_in_place [OF assms] by (auto split: sum.splits)

lemma findFile_listed:
  "lstatSync h c = Inr st \<Longrightarrow> (p \<and> isSymbolicLink st) \<or> (\<not> isSymbolicLink st \<and> isFile st) \<Longrightarrow>
   readdirSync h (dirname h c) = Inr names \<Longrightarrow> basename h c \<in> set names \<Longrightarrow>
   findFile h c p = Some ([Lstat c, Readdir (dirname h c)], Some c)"
  by (subst findFile_in_place [of h c st p]) auto

lemma findFile_unlisted:
  "lstatSync h c = Inr st \<Longrightarrow> p \<or> \<not> isSymbolicLink st \<Longrightarrow>
   readdirSync h (dirname h c) = Inr names \<Longrightarrow> basename h c \<notin> set names \<Longrightarrow>
   map_option snd (findFile h c p) = Some None"
  by (subst findFile_in_place [of h c st p]) auto

subsection \<open>Extension inference and the resolver, case by case\<close>

lemma addJs_first:
  "findFile h file p = Some (ps1, Some q) \<Longrightarrow> q \<noteq> [] \<Longrightarrow>
   addJsExtensionIfNecessary h file p = Some (ps1, Some q)"
  by (simp add: addJsExtensionIfNecessary_def truthy_def)

lemma addJs_second:
  "findFile h file p = Some (ps1, r1) \<Longrightarrow> \<not> truthy r1 \<Longrightarrow>
   findFile h (file @ ''.mjs'') p = Some (ps2, Some q) \<Longrightarrow> q \<noteq> [] \<Longrightarrow>
   addJsExtensionIfNecessary h file p = Some (ps1 @ ps2, Some q)"
  by (simp add: addJsExtensionIfNecessary_def truthy_def)

lemma addJs_third:
  "findFile h file p = Some (ps1, r1) \<Longrightarrow> \<not> truthy r1 \<Longrightarrow>
   findFile h (file @ ''.mjs'') p = Some (ps2, r2) \<Longrightarrow> \<not> truthy r2 \<Longrightarrow>
   findFile h (file @ ''.js'') p = Some (ps3, r3) \<Longrightarrow>
   addJsExtensionIfNecessary h file p = Some (ps1 @ ps2 @ ps3, r3)"
  by (simp add: addJsExtensionIfNecessary_def)

lemma addJs_none:
  "map_option snd (findFile h c p) = Some None \<Longrightarrow>
   map_option snd (findFile h (c @ ''.mjs'') p) = Some None \<Longrightarrow>
   map_option snd (findFile h (c @ ''.js'') p) = Some None \<Longrightarrow>
   map_option snd (addJsExtensionIfNecessary h c p) = Some None"
  by (auto simp: addJsExtensionIfNecessary_def truthy_def)

lemma createResolveId_resolves:
  "process_defined h \<Longrightarrow>
   importer = None \<or> isAbsolute h importee \<or> (\<exists>cs. importee = CHR ''.'' # cs) \<Longrightarrow>
   createResolveId h p importee importer =
     (case addJsExtensionIfNecessary h (composedPath h importee importer) p of
        None \<Rightarrow> None
      | Some (ps, found) \<Rightarrow> Some (ps, Inr (case found of None \<Rightarrow> Undefined | Some q \<Rightarrow> Path q)))"
  by (auto simp: createResolveId_def composedPath_def split: list.splits)

lemma createResolveId_found:
  "process_defined h \<Longrightarrow>
   importer = None \<or> isAbsolute h importee \<or> (\<exists>cs. importee = CHR ''.'' # cs) \<Longrightarrow>
   addJsExtensionIfNecessary h (composedPath h importee importer) p = Some (ps, found) \<Longrightarrow>
   createResolveId h p importee importer =
     Some (ps, Inr (case found of None \<Rightarrow> Undefined | Some q \<Rightarrow> Path q))"
  by (simp add: createResolveId_resolves)

subsection \<open>The sample host, evaluated\<close>

lemmas sample_defs =
  sample_host_def sample_lstat_def sample_realpath_def sample_readdir_def sample_basename_def
  sample_dirname_def sample_isAbsolute_def lower_def

lemma sample_process: "process_defined sample_host"
  by (simp add: sample_host_def)

lemma sample_composedPath:
  "composedPath sample_host ''./nope'' (Some ''/proj/main.js'') = ''/proj/nope''"
  "composedPath sample_host ''./bar'' (Some ''/proj/main.js'') = ''/proj/bar''"
  "composedPath sample_host ''./both'' (Some ''/proj/main.js'') = ''/proj/both''"
  "composedPath sample_host ''./foo'' (Some ''/proj/main.js'') = ''/proj/foo''"
  "composedPath sample_host ''./Foo.js'' (Some ''/proj/main.js'') = ''/proj/Foo.js''"
  "composedPath sample_host ''./link.js'' (Some ''/proj/main.js'') = ''/proj/link.js''"
  by (simp_all add: composedPath_def truthy_def sample_defs)

lemma sample_findFile_nope:
  "findFile sample_host ''/proj/nope'' p = Some ([Lstat ''/proj/nope''], None)"
  "findFile sample_host ''/proj/nope.mjs'' p = Some ([Lstat ''/proj/nope.mjs''], None)"
  "findFile sample_host ''/proj/nope.js'' p = Some ([Lstat ''/proj/nope.js''], None)"
  by (rule findFile_lstat_error [where e = ENOENT], simp add: sample_defs)+

lemma sample_findFile_absent:
  "findFile sample_host ''/proj/bar'' p = Some ([Lstat ''/proj/bar''], None)"
  "findFile sample_host ''/proj/foo'' p = Some ([Lstat ''/proj/foo''], None)"
  "findFile sample_host ''/proj/foo.mjs'' p = Some ([Lstat ''/proj/foo.mjs''], None)"
  "findFile sample_host ''/proj/Foo.js.mjs'' p = Some ([Lstat ''/proj/Foo.js.mjs''], None)"
  "findFile sample_host ''/proj/Foo.js.js'' p = Some ([Lstat ''/proj/Foo.js.js''], None)"
  by (rule findFile_lstat_error [where e = ENOENT], simp add: sample_defs)+

lemma sample_findFile_present:
  "findFile sample_host ''/proj/bar.mjs'' False =
     Some ([Lstat ''/proj/bar.mjs'', Readdir ''/proj''], Some ''/proj/bar.mjs'')"
  "findFile sample_host ''/proj/both'' False =
     Some ([Lstat ''/proj/both'', Readdir ''/proj''], Some ''/proj/both'')"
  "findFile sample_host ''/proj/foo.js'' False =
     Some ([Lstat ''/proj/foo.js'', Readdir ''/proj''], Some ''/proj/foo.js'')"
  by (simp_all add: findFile.simps sample_defs)

lemma sample_findFile_link:
  "findFile sample_host ''/proj/link.js'' False =
     Some ([Lstat ''/proj/link.js'', Realpath ''/proj/link.js'', Lstat ''/real/target.js'',
            Readdir ''/real''], Some ''/real/target.js'')"
  by (simp add: findFile.simps sample_defs)

lemma sample_findFile_loop:
  "findFile sample_host ''/proj/loop.js'' False =
     Some ([Lstat ''/proj/loop.js'', Realpath ''/proj/loop.js''], None)"
  by (simp add: findFile.simps sample_defs)

lemma sample_findFile_case:
  "findFile sample_host ''/proj/Foo.js'' False =
     Some ([Lstat ''/proj/Foo.js'', Readdir ''/proj''], None)"
  "findFile sample_host ''/proj/Link.js'' False =
     Some ([Lstat ''/proj/Link.js'', Realpath ''/proj/Link.js'', Lstat ''/real/target.js'',
            Readdir ''/real''], Some ''/real/target.js'')"
  "findFile sample_host ''/proj/link.js'' True =
     Some ([Lstat ''/proj/link.js'', Readdir ''/proj''], Some ''/proj/link.js'')"
  "findFile sample_host ''/locked/secret.js'' False =
     Some ([Lstat ''/locked/secret.js'', Readdir ''/locked''], None)"
  by (simp_all add: findFile.simps sample_defs)

subsection \<open>Resolution misses and bare specifiers\<close>

text \<open>
  C3, as stated: when no candidate passes file verification \<open>resolveId\<close> returns \<open>null\<close>.
  On the sample host the relative specifier \<open>./nope\<close> has no candidate that verifies, and
  the value returned is \<open>undefined\<close>, the empty result of \<open>findFile\<close> handed up unchanged;
  \<open>null\<close> is returned by the early return for bare specifiers only.
\<close>

theorem resolveId_miss_counterexample:
  "\<not> isAbsolute sample_host ''./nope'' \<and>
   map_option snd (findFile sample_host ''/proj/nope'' False) = Some None \<and>
   map_option snd (findFile sample_host ''/proj/nope.mjs'' False) = Some None \<and>
   map_option snd (findFile sample_host ''/proj/nope.js'' False) = Some None \<and>
   createResolveId sample_host False ''./nope'' (Some ''/proj/main.js'') =
     Some ([Lstat ''/proj/nope'', Lstat ''/proj/nope.mjs'', Lstat ''/proj/nope.js''], Inr Undefined) \<and>
   map_option snd (createResolveId sample_host False ''./nope'' (Some ''/proj/main.js'')) \<noteq>
     Some (Inr Null)"
proof -
  have "createResolveId sample_host False ''./nope'' (Some ''/proj/main.js'') =
     Some ([Lstat ''/proj/nope'', Lstat ''/proj/nope.mjs'', Lstat ''/proj/nope.js''], Inr Undefined)"
    by (simp add: createResolveId_resolves sample_process sample_composedPath
          addJsExtensionIfNecessary_def sample_findFile_nope truthy_def)
  moreover have "\<not> isAbsolute sample_host ''./nope''"
    by (simp add: sample_defs)
  ultimately show ?thesis by (simp add: sample_findFile_nope)
qed

text \<open>
  C3, amended: \<open>resolveId\<close> returns a path, \<open>null\<close> or \<open>undefined\<close>. For every specifier that
  is not sent back by the early return (no importer, or absolute, or starting with a dot)
  and for which the composed path, the path with \<open>.mjs\<close> and the path with \<open>.js\<close> all fail
  file verification, it returns \<open>undefined\<close> after probing the three in that order. It
  raises exactly when the host has no \<open>process\<close> global, with \<open>MISSING_PROCESS\<close> and
  before any probe.
\<close>

theorem resolveId_unresolved:
  "(process_defined h \<and>
    (importer = None \<or> isAbsolute h importee \<or> (\<exists>cs. importee = CHR ''.'' # cs)) \<and>
    findFile h (composedPath h importee importer) p = Some (ps1, None) \<and>
    findFile h (composedPath h importee importer @ ''.mjs'') p = Some (ps2, None) \<and>
    findFile h (composedPath h importee importer @ ''.js'') p = Some (ps3, None) \<longrightarrow>
      createResolveId h p importee importer = Some (ps1 @ ps2 @ ps3, Inr Undefined)) \<and>
   (createResolveId h p importee importer = Some (ps, Inl e) \<longleftrightarrow>
      \<not> process_defined h \<and> ps = [] \<and> e = MISSING_PROCESS)"
proof (intro conjI impI)
  assume a: "process_defined h \<and>
    (importer = None \<or> isAbsolute h importee \<or> (\<exists>cs. importee = CHR ''.'' # cs)) \<and>
    findFile h (composedPath h importee importer) p = Some (ps1, None) \<and>
    findFile h (composedPath h importee importer @ ''.mjs'') p = Some (ps2, None) \<and>
    findFile h (composedPath h importee importer @ ''.js'') p = Some (ps3, None)"
  then have "addJsExtensionIfNecessary h (composedPath h importee importer) p =
      Some (ps1 @ ps2 @ ps3, None)"
    by (simp add: addJs_third truthy_def)
  with a show "createResolveId h p importee importer = Some (ps1 @ ps2 @ ps3, Inr Undefined)"
    by (simp add: createResolveId_found)
next
  show "createResolveId h p importee importer = Some (ps, Inl e) \<longleftrightarrow>
      \<not> process_defined h \<and> ps = [] \<and> e = MISSING_PROCESS"
    by (auto simp: createResolveId_def error_def split: option.splits prod.splits)
qed

theorem resolveId_unresolved_witness:
  "createResolveId sample_host False ''./nope'' (Some ''/proj/main.js'') =
     Some ([Lstat ''/proj/nope''] @ [Lstat ''/proj/nope.mjs''] @ [Lstat ''/proj/nope.js''],
           Inr Undefined) \<and>
   createResolveId (sample_host\<lparr>process_defined := False\<rparr>) False ''./nope''
       (Some ''/proj/main.js'') = Some ([], Inl MISSING_PROCESS)"
proof -
  have a: "process_defined sample_host \<and>
      (Some ''/proj/main.js'' = None \<or> isAbsolute sample_host ''./nope'' \<or>
       (\<exists>cs. ''./nope'' = CHR ''.'' # cs)) \<and>
      findFile sample_host (composedPath sample_host ''./nope'' (Some ''/proj/main.js'')) False =
        Some ([Lstat ''/proj/nope''], None) \<and>
      findFile sample_host (composedPath sample_host ''./nope'' (Some ''/proj/main.js'') @ ''.mjs'')
        False = Some ([Lstat ''/proj/nope.mjs''], None) \<and>
      findFile sample_host (composedPath sample_host ''./nope'' (Some ''/proj/main.js'') @ ''.js'')
        False = Some ([Lstat ''/proj/nope.js''], None)"
    by (simp add: sample_process sample_composedPath sample_findFile_nope)
  have b: "\<not> process_defined (sample_host\<lparr>process_defined := False\<rparr>) \<and>
      ([] :: probe list) = [] \<and> MISSING_PROCESS = MISSING_PROCESS"
    by simp
  from a b
    resolveId_unresolved [of sample_host "Some ''/proj/main.js''" "''./nope''" False
      "[Lstat ''/proj/nope'']" "[Lstat ''/proj/nope.mjs'']" "[Lstat ''/proj/nope.js'']"]
    resolveId_unresolved [of "sample_host\<lparr>process_defined := False\<rparr>"
      "Some ''/proj/main.js''" "''./nope''" False _ _ _ "[]" MISSING_PROCESS]
  show ?thesis by blast
qed

text \<open>
  C4: on a host with a \<open>process\<close> global, for every bare specifier (not absolute, not
  starting with a dot) given with a defined importer, \<open>resolveId\<close> returns \<open>null\<close> and the
  log of file system probes is empty.
\<close>

theorem resolveId_bare_specifier:
  "process_defined h \<Longrightarrow> \<not> isAbsolute h importee \<Longrightarrow> \<not> (\<exists>cs. importee = CHR ''.'' # cs) \<Longrightarrow>
   createResolveId h p importee (Some importer) = Some ([], Inr Null)"
  by (cases importee) (simp_all add: createResolveId_def)

theorem resolveId_bare_specifier_witness:
  "process_defined sample_host \<and> \<not> isAbsolute sample_host ''lodash'' \<and>
   \<not> (\<exists>cs. ''lodash'' = CHR ''.'' # cs) \<and>
   createResolveId sample_host False ''lodash'' (Some ''/proj/main.js'') = Some ([], Inr Null)"
proof -
  have a: "process_defined sample_host" by (simp add: sample_host_def)
  have b: "\<not> isAbsolute sample_host ''lodash''" by (simp add: sample_defs)
  have c: "\<not> (\<exists>cs. ''lodash'' = CHR ''.'' # cs)" by simp
  from a b c resolveId_bare_specifier [OF a b c, of False "''/proj/main.js''"]
  show ?thesis by blast
qed

subsection \<open>Extension inference\<close>

text \<open>
  C5: the candidates are verified in the order composed path, path with \<open>.mjs\<close>, path with
  \<open>.js\<close>, and the first truthy result wins: later candidates are not probed, and
  \<open>resolveId\<close> returns that result. A regular file whose name is in the listing of its
  directory verifies as its own path.
\<close>

theorem extension_inference:
  "(findFile h c p = Some (ps_exact, Some q_exact) \<and> q_exact \<noteq> [] \<longrightarrow>
      addJsExtensionIfNecessary h c p = Some (ps_exact, Some q_exact)) \<and>
   (findFile h c p = Some (ps_exact, r_exact) \<and> \<not> truthy r_exact \<and>
    findFile h (c @ ''.mjs'') p = Some (ps_mjs, Some q_mjs) \<and> q_mjs \<noteq> [] \<longrightarrow>
      addJsExtensionIfNecessary h c p = Some (ps_exact @ ps_mjs, Some q_mjs)) \<and>
   (findFile h c p = Some (ps_exact, r_exact) \<and> \<not> truthy r_exact \<and>
    findFile h (c @ ''.mjs'') p = Some (ps_mjs, r_mjs) \<and> \<not> truthy r_mjs \<and>
    findFile h (c @ ''.js'') p = Some (ps_js, r_js) \<longrightarrow>
      addJsExtensionIfNecessary h c p = Some (ps_exact @ ps_mjs @ ps_js, r_js)) \<and>
   (process_defined h \<and>
    (importer = None \<or> isAbsolute h importee \<or> (\<exists>cs. importee = CHR ''.'' # cs)) \<and>
    addJsExtensionIfNecessary h (composedPath h importee importer) p = Some (ps, Some q) \<longrightarrow>
      createResolveId h p importee importer = Some (ps, Inr (Path q))) \<and>
   (lstatSync h f = Inr st \<and> isFile st \<and> \<not> isSymbolicLink st \<and>
    readdirSync h (dirname h f) = Inr names \<and> basename h f \<in> set names \<longrightarrow>
      findFile h f p = Some ([Lstat f, Readdir (dirname h f)], Some f))"
proof (intro conjI impI)
  assume "findFile h c p = Some (ps_exact, Some q_exact) \<and> q_exact \<noteq> []"
  then show "addJsExtensionIfNecessary h c p = Some (ps_exact, Some q_exact)"
    by (simp add: addJs_first)
next
  assume "findFile h c p = Some (ps_exact, r_exact) \<and> \<not> truthy r_exact \<and>
    findFile h (c @ ''.mjs'') p = Some (ps_mjs, Some q_mjs) \<and> q_mjs \<noteq> []"
  then show "addJsExtensionIfNecessary h c p = Some (ps_exact @ ps_mjs, Some q_mjs)"
    by (simp add: addJs_second)
next
  assume "findFile h c p = Some (ps_exact, r_exact) \<and> \<not> truthy r_exact \<and>
    findFile h (c @ ''.mjs'') p = Some (ps_mjs, r_mjs) \<and> \<not> truthy r_mjs \<and>
    findFile h (c @ ''.js'') p = Some (ps_js, r_js)"
  then show "addJsExtensionIfNecessary h c p = Some (ps_exact @ ps_mjs @ ps_js, r_js)"
    by (simp add: addJs_third)
next
  assume "process_defined h \<and>
    (importer = None \<or> isAbsolute h importee \<or> (\<exists>cs. importee = CHR ''.'' # cs)) \<and>
    addJsExtensionIfNecessary h (composedPath h importee importer) p = Some (ps, Some q)"
  then show "createResolveId h p importee importer = Some (ps, Inr (Path q))"
    by (simp add: createResolveId_found)
next
  assume "lstatSync h f = Inr st \<and> isFile st \<and> \<not> isSymbolicLink st \<and>
    readdirSync h (dirname h f) = Inr names \<and> basename h f \<in> set names"
  then show "findFile h f p = Some ([Lstat f, Readdir (dirname h f)], Some f)"
    by (simp add: findFile_listed)
qed

theorem extension_inference_witness:
  "createResolveId sample_host False ''./both'' (Some ''/proj/main.js'') =
     Some ([Lstat ''/proj/both'', Readdir ''/proj''], Inr (Path ''/proj/both'')) \<and>
   createResolveId sample_host False ''./bar'' (Some ''/proj/main.js'') =
     Some ([Lstat ''/proj/bar''] @ [Lstat ''/proj/bar.mjs'', Readdir ''/proj''],
           Inr (Path ''/proj/bar.mjs'')) \<and>
   createResolveId sample_host False ''./foo'' (Some ''/proj/main.js'') =
     Some ([Lstat ''/proj/foo''] @ [Lstat ''/proj/foo.mjs''] @ [Lstat ''/proj/foo.js'', Readdir ''/proj''],
           Inr (Path ''/proj/foo.js'')) \<and>
   findFile sample_host ''/proj/foo.js'' False =
     Some ([Lstat ''/proj/foo.js'', Readdir (dirname sample_host ''/proj/foo.js'')],
           Some ''/proj/foo.js'')"
proof -
  note ext = extension_inference [where h = sample_host and p = False
      and importer = "Some ''/proj/main.js''"]
  have both: "addJsExtensionIfNecessary sample_host ''/proj/both'' False =
      Some ([Lstat ''/proj/both'', Readdir ''/proj''], Some ''/proj/both'')"
    using ext [where c = "''/proj/both''" and ps_exact = "[Lstat ''/proj/both'', Readdir ''/proj'']"
        and q_exact = "''/proj/both''"]
    by (simp add: sample_findFile_present)
  have bar: "addJsExtensionIfNecessary sample_host ''/proj/bar'' False =
      Some ([Lstat ''/proj/bar''] @ [Lstat ''/proj/bar.mjs'', Readdir ''/proj''], Some ''/proj/bar.mjs'')"
    using ext [where c = "''/proj/bar''" and ps_exact = "[Lstat ''/proj/bar'']" and r_exact = None
        and ps_mjs = "[Lstat ''/proj/bar.mjs'', Readdir ''/proj'']" and q_mjs = "''/proj/bar.mjs''"]
    by (simp add: sample_findFile_present sample_findFile_absent truthy_def)
  have foo: "addJsExtensionIfNecessary sample_host ''/proj/foo'' False =
      Some ([Lstat ''/proj/foo''] @ [Lstat ''/proj/foo.mjs''] @ [Lstat ''/proj/foo.js'', Readdir ''/proj''],
            Some ''/proj/foo.js'')"
    using ext [where c = "''/proj/foo''" and ps_exact = "[Lstat ''/proj/foo'']" and r_exact = None
        and ps_mjs = "[Lstat ''/proj/foo.mjs'']" and r_mjs = None
        and ps_js = "[Lstat ''/proj/foo.js'', Readdir ''/proj'']" and r_js = "Some ''/proj/foo.js''"]
    by (simp add: sample_findFile_present sample_findFile_absent truthy_def)
  have listed: "lstatSync sample_host ''/proj/foo.js'' = Inr \<lparr>isSymbolicLink = False, isFile = True\<rparr> \<and>
      isFile \<lparr>isSymbolicLink = False, isFile = True\<rparr> \<and>
      \<not> isSymbolicLink \<lparr>isSymbolicLink = False, isFile = True\<rparr> \<and>
      readdirSync sample_host (dirname sample_host ''/proj/foo.js'') =
        Inr [''bar.mjs'', ''both'', ''both.js'', ''foo.js'', ''link.js'', ''loop.js'', ''main.js''] \<and>
      basename sample_host ''/proj/foo.js'' \<in>
        set [''bar.mjs'', ''both'', ''both.js'', ''foo.js'', ''link.js'', ''loop.js'', ''main.js'']"
    by (simp add: sample_defs)
  from both bar foo listed sample_process
    ext [where importee = "''./both''" and ps = "[Lstat ''/proj/both'', Readdir ''/proj'']"
      and q = "''/proj/both''"]
    ext [where importee = "''./bar''"
      and ps = "[Lstat ''/proj/bar''] @ [Lstat ''/proj/bar.mjs'', Readdir ''/proj'']"
      and q = "''/proj/bar.mjs''"]
    ext [where importee = "''./foo''"
      and ps = "[Lstat ''/proj/foo''] @ [Lstat ''/proj/foo.mjs''] @ [Lstat ''/proj/foo.js'', Readdir ''/proj'']"
      and q = "''/proj/foo.js''"]
    ext [where f = "''/proj/foo.js''" and st = "\<lparr>isSymbolicLink = False, isFile = True\<rparr>"
      and names = "[''bar.mjs'', ''both'', ''both.js'', ''foo.js'', ''link.js'', ''loop.js'', ''main.js'']"]
  show ?thesis
    by (simp add: sample_composedPath)
qed

subsection \<open>The case of names\<close>

text \<open>
  C6, as stated: every candidate whose base name is not, character for character, in the
  listing of its directory fails verification. With symbolic links followed this is false:
  on the sample host \<open>/proj/Link.js\<close> reaches the link \<open>link.js\<close>, no entry of \<open>/proj\<close> is
  spelled \<open>Link.js\<close>, and the candidate verifies as the link's real target, whose own name
  is the one compared with a listing.
\<close>

theorem case_exactness_guard_counterexample:
  "lstatSync sample_host ''/proj/Link.js'' = Inr \<lparr>isSymbolicLink = True, isFile = False\<rparr> \<and>
   readdirSync sample_host (dirname sample_host ''/proj/Link.js'') =
     Inr [''bar.mjs'', ''both'', ''both.js'', ''foo.js'', ''link.js'', ''loop.js'', ''main.js''] \<and>
   basename sample_host ''/proj/Link.js'' \<notin>
     set [''bar.mjs'', ''both'', ''both.js'', ''foo.js'', ''link.js'', ''loop.js'', ''main.js''] \<and>
   findFile sample_host ''/proj/Link.js'' False =
     Some ([Lstat ''/proj/Link.js'', Realpath ''/proj/Link.js'', Lstat ''/real/target.js'',
            Readdir ''/real''], Some ''/real/target.js'') \<and>
   createResolveId sample_host False ''./Link.js'' (Some ''/proj/main.js'') =
     Some ([Lstat ''/proj/Link.js'', Realpath ''/proj/Link.js'', Lstat ''/real/target.js'',
            Readdir ''/real''], Inr (Path ''/real/target.js''))"
proof -
  have "composedPath sample_host ''./Link.js'' (Some ''/proj/main.js'') = ''/proj/Link.js''"
    by (simp add: composedPath_def truthy_def sample_defs)
  then have "createResolveId sample_host False ''./Link.js'' (Some ''/proj/main.js'') =
     Some ([Lstat ''/proj/Link.js'', Realpath ''/proj/Link.js'', Lstat ''/real/target.js'',
            Readdir ''/real''], Inr (Path ''/real/target.js''))"
    by (simp add: createResolveId_resolves sample_process addJsExtensionIfNecessary_def
          sample_findFile_case truthy_def)
  moreover have "lstatSync sample_host ''/proj/Link.js'' = Inr \<lparr>isSymbolicLink = True, isFile = False\<rparr> \<and>
   readdirSync sample_host (dirname sample_host ''/proj/Link.js'') =
     Inr [''bar.mjs'', ''both'', ''both.js'', ''foo.js'', ''link.js'', ''loop.js'', ''main.js''] \<and>
   basename sample_host ''/proj/Link.js'' \<notin>
     set [''bar.mjs'', ''both'', ''both.js'', ''foo.js'', ''link.js'', ''loop.js'', ''main.js'']"
    by (simp add: sample_defs)
  ultimately show ?thesis
    by (simp add: sample_findFile_case)
qed

text \<open>
  C6, amended: a candidate that is verified in place (anything but a symbolic link, or a
  symbolic link when links are preserved) and whose base name is not in the listing of its
  directory fails verification; a symbolic link that is followed is verified as its real
  target, so the name compared is the target's. When the composed path fails in this way
  and the two candidates with an extension fail as well, \<open>resolveId\<close> returns
  \<open>undefined\<close>.
\<close>

theorem case_exactness_guard:
  "(lstatSync h c = Inr st \<and> (p \<or> \<not> isSymbolicLink st) \<and>
    readdirSync h (dirname h c) = Inr names \<and> basename h c \<notin> set names \<longrightarrow>
      map_option snd (findFile h c p) = Some None) \<and>
   (lstatSync h c = Inr st \<and> isSymbolicLink st \<and> realpathSync h c = Inr target \<longrightarrow>
      map_option snd (findFile h c False) = map_option snd (findFile h target False)) \<and>
   (process_defined h \<and>
    (importer = None \<or> isAbsolute h importee \<or> (\<exists>cs. importee = CHR ''.'' # cs)) \<and>
    composedPath h importee importer = c \<and>
    lstatSync h c = Inr st \<and> (p \<or> \<not> isSymbolicLink st) \<and>
    readdirSync h (dirname h c) = Inr names \<and> basename h c \<notin> set names \<and>
    map_option snd (findFile h (c @ ''.mjs'') p) = Some None \<and>
    map_option snd (findFile h (c @ ''.js'') p) = Some None \<longrightarrow>
      map_option snd (createResolveId h p importee importer) = Some (Inr Undefined))"
proof (intro conjI impI)
  assume "lstatSync h c = Inr st \<and> (p \<or> \<not> isSymbolicLink st) \<and>
    readdirSync h (dirname h c) = Inr names \<and> basename h c \<notin> set names"
  then show "map_option snd (findFile h c p) = Some None"
    using findFile_unlisted [of h c st p names] by blast
next
  assume "lstatSync h c = Inr st \<and> isSymbolicLink st \<and> realpathSync h c = Inr target"
  then show "map_option snd (findFile h c False) = map_option snd (findFile h target False)"
    using findFile_follow_result [of h c st target] by blast
next
  assume a: "process_defined h \<and>
    (importer = None \<or> isAbsolute h importee \<or> (\<exists>cs. importee = CHR ''.'' # cs)) \<and>
    composedPath h importee importer = c \<and>
    lstatSync h c = Inr st \<and> (p \<or> \<not> isSymbolicLink st) \<and>
    readdirSync h (dirname h c) = Inr names \<and> basename h c \<notin> set names \<and>
    map_option snd (findFile h (c @ ''.mjs'') p) = Some None \<and>
    map_option snd (findFile h (c @ ''.js'') p) = Some None"
  then have "map_option snd (findFile h c p) = Some None"
    using findFile_unlisted [of h c st p names] by blast
  with a have "map_option snd (addJsExtensionIfNecessary h c p) = Some None"
    by (simp add: addJs_none)
  then obtain ps where "addJsExtensionIfNecessary h c p = Some (ps, None)"
    by auto
  with a show "map_option snd (createResolveId h p importee importer) = Some (Inr Undefined)"
    by (simp add: createResolveId_resolves)
qed

theorem case_exactness_guard_witness:
  "basename sample_host ''/proj/Foo.js'' \<notin>
     set [''bar.mjs'', ''both'', ''both.js'', ''foo.js'', ''link.js'', ''loop.js'', ''main.js''] \<and>
   map_option snd (findFile sample_host ''/proj/Foo.js'' False) = Some None \<and>
   map_option snd (findFile sample_host ''/proj/link.js'' False) =
     map_option snd (findFile sample_host ''/real/target.js'' False) \<and>
   map_option snd (createResolveId sample_host False ''./Foo.js'' (Some ''/proj/main.js'')) =
     Some (Inr Undefined)"
proof -
  have a: "lstatSync sample_host ''/proj/Foo.js'' = Inr \<lparr>isSymbolicLink = False, isFile = True\<rparr> \<and>
      (False \<or> \<not> isSymbolicLink \<lparr>isSymbolicLink = False, isFile = True\<rparr>) \<and>
      readdirSync sample_host (dirname sample_host ''/proj/Foo.js'') =
        Inr [''bar.mjs'', ''both'', ''both.js'', ''foo.js'', ''link.js'', ''loop.js'', ''main.js''] \<and>
      basename sample_host ''/proj/Foo.js'' \<notin>
        set [''bar.mjs'', ''both'', ''both.js'', ''foo.js'', ''link.js'', ''loop.js'', ''main.js'']"
    by (simp add: sample_defs)
  have b: "lstatSync sample_host ''/proj/link.js'' = Inr \<lparr>isSymbolicLink = True, isFile = False\<rparr> \<and>
      isSymbolicLink \<lparr>isSymbolicLink = True, isFile = False\<rparr> \<and>
      realpathSync sample_host ''/proj/link.js'' = Inr ''/real/target.js''"
    by (simp add: sample_defs)
  have c: "process_defined sample_host \<and>
      (Some ''/proj/main.js'' = None \<or> isAbsolute sample_host ''./Foo.js'' \<or>
       (\<exists>cs. ''./Foo.js'' = CHR ''.'' # cs)) \<and>
      composedPath sample_host ''./Foo.js'' (Some ''/proj/main.js'') = ''/proj/Foo.js'' \<and>
      map_option snd (findFile sample_host (''/proj/Foo.js'' @ ''.mjs'') False) = Some None \<and>
      map_option snd (findFile sample_host (''/proj/Foo.js'' @ ''.js'') False) = Some None"
    by (simp add: sample_process sample_composedPath sample_findFile_absent)
  note guard = case_exactness_guard [where h = sample_host and p = False]
  from a b c
    guard [where c = "''/proj/Foo.js''" and st = "\<lparr>isSymbolicLink = False, isFile = True\<rparr>"
      and names = "[''bar.mjs'', ''both'', ''both.js'', ''foo.js'', ''link.js'', ''loop.js'', ''main.js'']"
      and importee = "''./Foo.js''" and importer = "Some ''/proj/main.js''"]
    guard [where c = "''/proj/link.js''" and st = "\<lparr>isSymbolicLink = True, isFile = False\<rparr>"
      and target = "''/real/target.js''"]
  show ?thesis by blast
qed

subsection \<open>Symbolic links\<close>

text \<open>
  C7: for a candidate whose status is a symbolic link, without preservation the
  verification is that of the real path read by \<open>realpathSync\<close> (itself followed again
  should it be a link), so a regular, listed target is the result; with preservation the
  link's own path is the result, provided its name is in the listing of its directory.
  \<open>resolveId\<close> returns what the verification of the first candidate yields.
\<close>

theorem symlink_handling:
  "(lstatSync h c = Inr st \<and> isSymbolicLink st \<and> realpathSync h c = Inr target \<longrightarrow>
      findFile h c False =
        Option.bind (findFile h target False)
          (\<lambda>r. Some (Lstat c # Realpath c # fst r, snd r))) \<and>
   (lstatSync h c = Inr st \<and> isSymbolicLink st \<and> realpathSync h c = Inr target \<and>
    lstatSync h target = Inr st' \<and> \<not> isSymbolicLink st' \<and> isFile st' \<and>
    readdirSync h (dirname h target) = Inr names \<and> basename h target \<in> set names \<longrightarrow>
      findFile h c False =
        Some ([Lstat c, Realpath c, Lstat target, Readdir (dirname h target)], Some target)) \<and>
   (lstatSync h c = Inr st \<and> isSymbolicLink st \<and>
    readdirSync h (dirname h c) = Inr names \<and> basename h c \<in> set names \<longrightarrow>
      findFile h c True = Some ([Lstat c, Readdir (dirname h c)], Some c)) \<and>
   (process_defined h \<and>
    (importer = None \<or> isAbsolute h importee \<or> (\<exists>cs. importee = CHR ''.'' # cs)) \<and>
    composedPath h importee importer = c \<and> findFile h c p = Some (ps, Some q) \<and> q \<noteq> [] \<longrightarrow>
      createResolveId h p importee importer = Some (ps, Inr (Path q)))"
proof (intro conjI impI)
  assume "lstatSync h c = Inr st \<and> isSymbolicLink st \<and> realpathSync h c = Inr target"
  then show "findFile h c False =
        Option.bind (findFile h target False) (\<lambda>r. Some (Lstat c # Realpath c # fst r, snd r))"
    using findFile_follow [of h c st target] by blast
next
  assume a: "lstatSync h c = Inr st \<and> isSymbolicLink st \<and> realpathSync h c = Inr target \<and>
    lstatSync h target = Inr st' \<and> \<not> isSymbolicLink st' \<and> isFile st' \<and>
    readdirSync h (dirname h target) = Inr names \<and> basename h target \<in> set names"
  then have "findFile h target False =
      Some ([Lstat target, Readdir (dirname h target)], Some target)"
    using findFile_listed [of h target st' False names] by blast
  with a show "findFile h c False =
        Some ([Lstat c, Realpath c, Lstat target, Readdir (dirname h target)], Some target)"
    using findFile_follow [of h c st target] by simp
next
  assume "lstatSync h c = Inr st \<and> isSymbolicLink st \<and>
    readdirSync h (dirname h c) = Inr names \<and> basename h c \<in> set names"
  then show "findFile h c True = Some ([Lstat c, Readdir (dirname h c)], Some c)"
    using findFile_listed [of h c st True names] by blast
next
  assume a: "process_defined h \<and>
    (importer = None \<or> isAbsolute h importee \<or> (\<exists>cs. importee = CHR ''.'' # cs)) \<and>
    composedPath h importee importer = c \<and> findFile h c p = Some (ps, Some q) \<and> q \<noteq> []"
  then have "addJsExtensionIfNecessary h c p = Some (ps, Some q)"
    by (simp add: addJs_first)
  with a show "createResolveId h p importee importer = Some (ps, Inr (Path q))"
    by (simp add: createResolveId_found)
qed

theorem symlink_handling_witness:
  "findFile sample_host ''/proj/link.js'' False =
     Option.bind (findFile sample_host ''/real/target.js'' False)
       (\<lambda>r. Some (Lstat ''/proj/link.js'' # Realpath ''/proj/link.js'' # fst r, snd r)) \<and>
   findFile sample_host ''/proj/link.js'' False =
     Some ([Lstat ''/proj/link.js'', Realpath ''/proj/link.js'', Lstat ''/real/target.js'',
            Readdir (dirname sample_host ''/real/target.js'')], Some ''/real/target.js'') \<and>
   findFile sample_host ''/proj/link.js'' True =
     Some ([Lstat ''/proj/link.js'', Readdir (dirname sample_host ''/proj/link.js'')],
           Some ''/proj/link.js'') \<and>
   createResolveId sample_host False ''./link.js'' (Some ''/proj/main.js'') =
     Some ([Lstat ''/proj/link.js'', Realpath ''/proj/link.js'', Lstat ''/real/target.js'',
            Readdir ''/real''], Inr (Path ''/real/target.js'')) \<and>
   createResolveId sample_host True ''./link.js'' (Some ''/proj/main.js'') =
     Some ([Lstat ''/proj/link.js'', Readdir ''/proj''], Inr (Path ''/proj/link.js''))"
proof -
  have link: "lstatSync sample_host ''/proj/link.js'' = Inr \<lparr>isSymbolicLink = True, isFile = False\<rparr> \<and>
      isSymbolicLink \<lparr>isSymbolicLink = True, isFile = False\<rparr> \<and>
      realpathSync sample_host ''/proj/link.js'' = Inr ''/real/target.js''"
    by (simp add: sample_defs)
  have target: "lstatSync sample_host ''/real/target.js'' = Inr \<lparr>isSymbolicLink = False, isFile = True\<rparr> \<and>
      \<not> isSymbolicLink \<lparr>isSymbolicLink = False, isFile = True\<rparr> \<and>
      isFile \<lparr>isSymbolicLink = False, isFile = True\<rparr> \<and>
      readdirSync sample_host (dirname sample_host ''/real/target.js'') = Inr [''target.js''] \<and>
      basename sample_host ''/real/target.js'' \<in> set [''target.js'']"
    by (simp add: sample_defs)
  have listed: "readdirSync sample_host (dirname sample_host ''/proj/link.js'') =
        Inr [''bar.mjs'', ''both'', ''both.js'', ''foo.js'', ''link.js'', ''loop.js'', ''main.js''] \<and>
      basename sample_host ''/proj/link.js'' \<in>
        set [''bar.mjs'', ''both'', ''both.js'', ''foo.js'', ''link.js'', ''loop.js'', ''main.js'']"
    by (simp add: sample_defs)
  have resolver: "process_defined sample_host \<and>
      (Some ''/proj/main.js'' = None \<or> isAbsolute sample_host ''./link.js'' \<or>
       (\<exists>cs. ''./link.js'' = CHR ''.'' # cs)) \<and>
      composedPath sample_host ''./link.js'' (Some ''/proj/main.js'') = ''/proj/link.js'' \<and>
      findFile sample_host ''/proj/link.js'' False =
        Some ([Lstat ''/proj/link.js'', Realpath ''/proj/link.js'', Lstat ''/real/target.js'',
               Readdir ''/real''], Some ''/real/target.js'') \<and>
      findFile sample_host ''/proj/link.js'' True =
        Some ([Lstat ''/proj/link.js'', Readdir ''/proj''], Some ''/proj/link.js'')"
    by (simp add: sample_process sample_composedPath sample_findFile_link sample_findFile_case)
  note sym = symlink_handling [where h = sample_host and c = "''/proj/link.js''"
      and st = "\<lparr>isSymbolicLink = True, isFile = False\<rparr>"]
  from link target listed
    sym [where target = "''/real/target.js''" and st' = "\<lparr>isSymbolicLink = False, isFile = True\<rparr>"
      and names = "[''target.js'']"]
    sym [where names = "[''bar.mjs'', ''both'', ''both.js'', ''foo.js'', ''link.js'', ''loop.js'', ''main.js'']"]
  have files: "findFile sample_host ''/proj/link.js'' False =
     Option.bind (findFile sample_host ''/real/target.js'' False)
       (\<lambda>r. Some (Lstat ''/proj/link.js'' # Realpath ''/proj/link.js'' # fst r, snd r)) \<and>
   findFile sample_host ''/proj/link.js'' False =
     Some ([Lstat ''/proj/link.js'', Realpath ''/proj/link.js'', Lstat ''/real/target.js'',
            Readdir (dirname sample_host ''/real/target.js'')], Some ''/real/target.js'') \<and>
   findFile sample_host ''/proj/link.js'' True =
     Some ([Lstat ''/proj/link.js'', Readdir (dirname sample_host ''/proj/link.js'')],
           Some ''/proj/link.js'')"
    by blast
  from resolver
    sym [where importee = "''./link.js''" and importer = "Some ''/proj/main.js''" and p = False
      and ps = "[Lstat ''/proj/link.js'', Realpath ''/proj/link.js'', Lstat ''/real/target.js'',
               Readdir ''/real'']" and q = "''/real/target.js''"]
    sym [where importee = "''./link.js''" and importer = "Some ''/proj/main.js''" and p = True
      and ps = "[Lstat ''/proj/link.js'', Readdir ''/proj'']" and q = "''/proj/link.js''"]
  have "createResolveId sample_host False ''./link.js'' (Some ''/proj/main.js'') =
     Some ([Lstat ''/proj/link.js'', Realpath ''/proj/link.js'', Lstat ''/real/target.js'',
            Readdir ''/real''], Inr (Path ''/real/target.js'')) \<and>
   createResolveId sample_host True ''./link.js'' (Some ''/proj/main.js'') =
     Some ([Lstat ''/proj/link.js'', Readdir ''/proj''], Inr (Path ''/proj/link.js''))"
    by simp
  with files show ?thesis by blast
qed

subsection \<open>Errors of the file system\<close>

text \<open>
  C9: an error raised by the status lookup, by the reading of the real path or by the
  directory listing ends the verification of that candidate with \<open>undefined\<close>, and the
  only error \<open>resolveId\<close> can raise is \<open>MISSING_PROCESS\<close> on a host without \<open>process\<close>.
\<close>

theorem probe_errors_suppressed:
  "(lstatSync h c = Inl e \<longrightarrow> findFile h c p = Some ([Lstat c], None)) \<and>
   (lstatSync h c = Inr st \<and> isSymbolicLink st \<and> realpathSync h c = Inl e \<longrightarrow>
      findFile h c False = Some ([Lstat c, Realpath c], None)) \<and>
   (lstatSync h c = Inr st \<and> ((p \<and> isSymbolicLink st) \<or> (\<not> isSymbolicLink st \<and> isFile st)) \<and>
    readdirSync h (dirname h c) = Inl e \<longrightarrow>
      findFile h c p = Some ([Lstat c, Readdir (dirname h c)], None)) \<and>
   (createResolveId h p importee importer = Some (ps, Inl err) \<longrightarrow>
      err = MISSING_PROCESS \<and> \<not> process_defined h)"
proof (intro conjI impI)
  assume "lstatSync h c = Inl e"
  then show "findFile h c p = Some ([Lstat c], None)"
    by (rule findFile_lstat_error)
next
  assume "lstatSync h c = Inr st \<and> isSymbolicLink st \<and> realpathSync h c = Inl e"
  then show "findFile h c False = Some ([Lstat c, Realpath c], None)"
    by (simp add: findFile_realpath_error)
next
  assume a: "lstatSync h c = Inr st \<and>
    ((p \<and> isSymbolicLink st) \<or> (\<not> isSymbolicLink st \<and> isFile st)) \<and>
    readdirSync h (dirname h c) = Inl e"
  then have "p \<or> \<not> isSymbolicLink st" by blast
  with a show "findFile h c p = Some ([Lstat c, Readdir (dirname h c)], None)"
    by (subst findFile_in_place [of h c st p]) auto
next
  assume "createResolveId h p importee importer = Some (ps, Inl err)"
  then show "err = MISSING_PROCESS" "\<not> process_defined h"
    by (auto simp: createResolveId_def error_def split: option.splits prod.splits if_splits)
qed

theorem probe_errors_suppressed_witness:
  "lstatSync sample_host ''/proj/nope'' = Inl ENOENT \<and>
   findFile sample_host ''/proj/nope'' False = Some ([Lstat ''/proj/nope''], None) \<and>
   realpathSync sample_host ''/proj/loop.js'' = Inl ELOOP \<and>
   findFile sample_host ''/proj/loop.js'' False =
     Some ([Lstat ''/proj/loop.js'', Realpath ''/proj/loop.js''], None) \<and>
   readdirSync sample_host (dirname sample_host ''/locked/secret.js'') = Inl EACCES \<and>
   findFile sample_host ''/locked/secret.js'' False =
     Some ([Lstat ''/locked/secret.js'', Readdir (dirname sample_host ''/locked/secret.js'')], None) \<and>
   createResolveId (sample_host\<lparr>process_defined := False\<rparr>) False ''./foo''
     (Some ''/proj/main.js'') = Some ([], Inl MISSING_PROCESS) \<and>
   \<not> process_defined (sample_host\<lparr>process_defined := False\<rparr>)"
proof -
  have a: "lstatSync sample_host ''/proj/nope'' = Inl ENOENT"
    by (simp add: sample_defs)
  have b: "lstatSync sample_host ''/proj/loop.js'' = Inr \<lparr>isSymbolicLink = True, isFile = False\<rparr> \<and>
      isSymbolicLink \<lparr>isSymbolicLink = True, isFile = False\<rparr> \<and>
      realpathSync sample_host ''/proj/loop.js'' = Inl ELOOP"
    by (simp add: sample_defs)
  have c: "lstatSync sample_host ''/locked/secret.js'' = Inr \<lparr>isSymbolicLink = False, isFile = True\<rparr> \<and>
      ((False \<and> isSymbolicLink \<lparr>isSymbolicLink = False, isFile = True\<rparr>) \<or>
       (\<not> isSymbolicLink \<lparr>isSymbolicLink = False, isFile = True\<rparr> \<and>
        isFile \<lparr>isSymbolicLink = False, isFile = True\<rparr>)) \<and>
      readdirSync sample_host (dirname sample_host ''/locked/secret.js'') = Inl EACCES"
    by (simp add: sample_defs)
  have d: "createResolveId (sample_host\<lparr>process_defined := False\<rparr>) False ''./foo''
     (Some ''/proj/main.js'') = Some ([], Inl MISSING_PROCESS)"
    by (simp add: createResolveId_def error_def)
  from a b c d
    probe_errors_suppressed [of sample_host "''/proj/nope''" ENOENT False]
    probe_errors_suppressed [of sample_host "''/proj/loop.js''" ELOOP False
       "\<lparr>isSymbolicLink = True, isFile = False\<rparr>"]
    probe_errors_suppressed [of sample_host "''/locked/secret.js''" EACCES False
       "\<lparr>isSymbolicLink = False, isFile = True\<rparr>"]
    probe_errors_suppressed [where h = "sample_host\<lparr>process_defined := False\<rparr>" and p = False
       and importee = "''./foo''" and importer = "Some ''/proj/main.js''" and ps = "[]"
       and err = MISSING_PROCESS]
  show ?thesis by blast
qed

subsection \<open>Termination of file verification\<close>

text \<open>
  C10: file verification returns for every path whose real path, when \<open>realpathSync\<close>
  yields one, is not itself reported as a symbolic link by \<open>lstatSync\<close> (the file system is
  read in one consistent state): \<open>findFile\<close> then reads a real path at most once, so it
  calls itself at most once. And when reading the real path of a link raises, as it does on
  a cycle of links, the error is caught and the result is \<open>undefined\<close>.
\<close>

theorem findFile_terminates:
  assumes "\<forall>target st. realpathSync h file = Inr target \<and> lstatSync h target = Inr st \<longrightarrow>
             \<not> isSymbolicLink st"
  shows "(\<exists>ps r. findFile h file p = Some (ps, r) \<and> length (filter isRealpath ps) \<le> 1) \<and>
         (\<forall>st e. lstatSync h file = Inr st \<and> isSymbolicLink st \<and> realpathSync h file = Inl e \<longrightarrow>
            findFile h file False = Some ([Lstat file, Realpath file], None))"
proof (intro conjI allI impI)
  show "\<exists>ps r. findFile h file p = Some (ps, r) \<and> length (filter isRealpath ps) \<le> 1"
  proof (cases "lstatSync h file")
    case (Inl e)
    then show ?thesis by (simp add: findFile_lstat_error)
  next
    case (Inr st)
    show ?thesis
    proof (cases "p \<or> \<not> isSymbolicLink st")
      case True
      with Inr findFile_in_place_probes [of h "file" st p] show ?thesis by auto
    next
      case False
      then have p: "p = False" and link: "isSymbolicLink st" by auto
      show ?thesis
      proof (cases "realpathSync h file")
        case (Inl e)
        with Inr link show ?thesis unfolding p by (simp add: findFile_realpath_error)
      next
        case real: (Inr target)
        have follow: "findFile h file False =
            Option.bind (findFile h target False)
              (\<lambda>r. Some (Lstat file # Realpath file # fst r, snd r))"
          using Inr link real by (rule findFile_follow)
        show ?thesis
        proof (cases "lstatSync h target")
          case (Inl e)
          then show ?thesis unfolding p follow by (simp add: findFile_lstat_error)
        next
          case st': (Inr st')
          from assms real st' have "\<not> isSymbolicLink st'" by blast
          with st' findFile_in_place_probes [of h target st' False]
          obtain ps r where "findFile h target False = Some (ps, r)" "filter isRealpath ps = []"
            by auto
          then show ?thesis unfolding p follow by simp
        qed
      qed
    qed
  qed
next
  fix st e
  assume "lstatSync h file = Inr st \<and> isSymbolicLink st \<and> realpathSync h file = Inl e"
  then show "findFile h file False = Some ([Lstat file, Realpath file], None)"
    by (simp add: findFile_realpath_error)
qed

theorem findFile_terminates_witness:
  "(\<exists>ps r. findFile sample_host ''/proj/link.js'' False = Some (ps, r) \<and>
           length (filter isRealpath ps) \<le> 1) \<and>
   findFile sample_host ''/proj/loop.js'' False =
     Some ([Lstat ''/proj/loop.js'', Realpath ''/proj/loop.js''], None)"
proof -
  have link: "\<forall>target st. realpathSync sample_host ''/proj/link.js'' = Inr target \<and>
      lstatSync sample_host target = Inr st \<longrightarrow> \<not> isSymbolicLink st"
    by (auto simp: sample_defs)
  have dangling: "\<forall>target st. realpathSync sample_host ''/proj/loop.js'' = Inr target \<and>
      lstatSync sample_host target = Inr st \<longrightarrow> \<not> isSymbolicLink st"
    by (simp add: sample_defs)
  have loop: "lstatSync sample_host ''/proj/loop.js'' = Inr \<lparr>isSymbolicLink = True, isFile = False\<rparr> \<and>
      isSymbolicLink \<lparr>isSymbolicLink = True, isFile = False\<rparr> \<and>
      realpathSync sample_host ''/proj/loop.js'' = Inl ELOOP"
    by (simp add: sample_defs)
  from findFile_terminates [of sample_host "''/proj/link.js''" False, OF link]
       findFile_terminates [of sample_host "''/proj/loop.js''" False, OF dangling] loop
  show ?thesis by blast
qed

end
